theory Spec2Isabelle
  imports Main
begin

section \<open>The order front-end server (src/order/order.go)\<close>

text \<open>
  A shallow embedding of package \<open>order\<close>: the constructor \<open>New\<close> with its options,
  \<open>Run\<close>, \<open>Stop\<close>, the request handler built inside \<open>Run\<close> and \<open>healthz\<close>.
  Calls that leave the file (the operating system, the Go standard library, gRPC, the
  generated gateway) are outcomes supplied by an environment record; every early return
  of the source is a branch of the model.
\<close>

subsection \<open>Errors\<close>

text \<open>
  Go error values. \<open>ErrServerClosed\<close> is \<open>http.ErrServerClosed\<close>, \<open>DeadlineExceeded\<close>
  is \<open>context.DeadlineExceeded\<close>; \<open>Wrapped msg e\<close> is the
  value built by \<open>errors.Wrap(e, msg)\<close> for a non-nil \<open>e\<close> (the source wraps only after
  an \<open>err != nil\<close> test).
\<close>

datatype error = ErrServerClosed | DeadlineExceeded | Failure string | Wrapped string error

definition errors_Wrap :: "error \<Rightarrow> string \<Rightarrow> error" where
  "errors_Wrap err msg = Wrapped msg err"

text \<open>\<open>errors.Wrapf(err, fmt, a)\<close> with the single verb \<open>%s\<close> at the end of the format.\<close>

definition errors_Wrapf :: "error \<Rightarrow> string \<Rightarrow> string \<Rightarrow> error" where
  "errors_Wrapf err fmt a = Wrapped (fmt @ a) err"

subsection \<open>Strings and headers\<close>

fun HasPrefix :: "string \<Rightarrow> string \<Rightarrow> bool" where
  "HasPrefix s [] = True"
| "HasPrefix [] (c # cs) = False"
| "HasPrefix (x # xs) (c # cs) = (x = c \<and> HasPrefix xs cs)"

text \<open>\<open>strings.Contains(s, substr)\<close>: \<open>substr\<close> occurs somewhere within \<open>s\<close>.\<close>

fun Contains :: "string \<Rightarrow> string \<Rightarrow> bool" where
  "Contains [] substr = (substr = [])"
| "Contains (x # xs) substr = (HasPrefix (x # xs) substr \<or> Contains xs substr)"

text \<open>
  \<open>http.Header\<close> is \<open>map[string][]string\<close> with canonical keys; \<open>Get\<close> yields the first
  value stored under the key and the empty string when there is none.
\<close>

type_synonym Header = "string \<rightharpoonup> string list"

definition Header_Get :: "Header \<Rightarrow> string \<Rightarrow> string" where
  "Header_Get h key = (case h key of None \<Rightarrow> [] | Some [] \<Rightarrow> [] | Some (v # vs) \<Rightarrow> v)"

text \<open>\<open>net.JoinHostPort\<close>: a host with a colon is taken for an IPv6 literal.\<close>

definition JoinHostPort :: "string \<Rightarrow> string \<Rightarrow> string" where
  "JoinHostPort host port =
     (if CHR '':'' \<in> set host then ''['' @ host @ '']:'' @ port else host @ '':'' @ port)"

text \<open>
  \<open>net.SplitHostPort\<close> of the standard library: the port starts after the last colon; a
  host in brackets must end just before that colon; any other host must be free of colons;
  stray brackets are refused.
\<close>

definition IndexByte :: "string \<Rightarrow> char \<Rightarrow> nat option" where
  "IndexByte s c = (if c \<in> set s then Some (length (takeWhile (\<lambda>x. x \<noteq> c) s)) else None)"

definition LastIndexByte :: "string \<Rightarrow> char \<Rightarrow> nat option" where
  "LastIndexByte s c =
     (if c \<in> set s then Some (length s - Suc (length (takeWhile (\<lambda>x. x \<noteq> c) (rev s)))) else None)"

definition addrErr :: "string \<Rightarrow> string \<Rightarrow> error + string \<times> string" where
  "addrErr addr why = Inl (Failure (''address '' @ addr @ '': '' @ why))"

definition splitRest :: "string \<Rightarrow> string \<Rightarrow> nat \<Rightarrow> nat \<Rightarrow> nat \<Rightarrow> error + string \<times> string" where
  "splitRest hostport host j k i =
     (if CHR ''['' \<in> set (drop j hostport) then addrErr hostport (''unexpected '' @ [CHR 0x27, CHR ''['', CHR 0x27] @ '' in address'')
      else if CHR '']'' \<in> set (drop k hostport) then addrErr hostport (''unexpected '' @ [CHR 0x27, CHR '']'', CHR 0x27] @ '' in address'')
      else Inr (host, drop (Suc i) hostport))"

definition SplitHostPort :: "string \<Rightarrow> error + string \<times> string" where
  "SplitHostPort hostport =
     (case LastIndexByte hostport CHR '':'' of
        None \<Rightarrow> addrErr hostport ''missing port in address''
      | Some i \<Rightarrow>
          (if take 1 hostport = ''[''
           then (case IndexByte hostport CHR '']'' of
                   None \<Rightarrow> addrErr hostport (''missing '' @ [CHR 0x27, CHR '']'', CHR 0x27] @ '' in address'')
                 | Some e \<Rightarrow>
                     (if Suc e = length hostport then addrErr hostport ''missing port in address''
                      else if Suc e = i then splitRest hostport (take (e - 1) (drop 1 hostport)) 1 (Suc e) i
                      else if hostport ! Suc e = CHR '':''
                           then addrErr hostport ''too many colons in address''
                           else addrErr hostport ''missing port in address''))
           else (if CHR '':'' \<in> set (take i hostport)
                 then addrErr hostport ''too many colons in address''
                 else splitRest hostport (take i hostport) 0 0 i)))"

subsection \<open>Requests and response writers\<close>

record Request =
  ProtoMajor :: int
  Method :: string
  Path :: string
  Header :: Header
  Body :: string

text \<open>
  The \<open>http.ResponseWriter\<close> the server hands to a handler: it belongs to one request,
  whose method it knows. The first \<open>Write\<close> sends the header with status 200 when
  \<open>WriteHeader\<close> has not been called before; the bytes written become the body of the
  response, except that a status without a body (1xx, 204, 304) refuses them and the
  response to a \<open>HEAD\<close> request swallows them.
\<close>

record ResponseWriter =
  reqMethod :: string
  wroteHeader :: bool
  status :: nat
  body :: string

definition newResponseWriter :: "Request \<Rightarrow> ResponseWriter" where
  "newResponseWriter r = \<lparr>reqMethod = Method r, wroteHeader = False, status = 0, body = []\<rparr>"

definition WriteHeader :: "ResponseWriter \<Rightarrow> nat \<Rightarrow> ResponseWriter" where
  "WriteHeader w code = (if wroteHeader w then w else w\<lparr>wroteHeader := True, status := code\<rparr>)"

definition bodyAllowedForStatus :: "nat \<Rightarrow> bool" where
  "bodyAllowedForStatus st =
     (if 100 \<le> st \<and> st \<le> 199 then False
      else if st = 204 then False
      else if st = 304 then False
      else True)"

definition Write :: "ResponseWriter \<Rightarrow> string \<Rightarrow> ResponseWriter" where
  "Write w p =
     (let w1 = (if wroteHeader w then w else WriteHeader w 200) in
      if p = [] then w1
      else if \<not> bodyAllowedForStatus (status w1) then w1
      else if reqMethod w1 = ''HEAD'' then w1
      else w1\<lparr>body := body w1 @ p\<rparr>)"

text \<open>\<open>fmt.Fprintf(w, format)\<close> with a format that has no verbs writes the format.\<close>

definition Fprintf :: "ResponseWriter \<Rightarrow> string \<Rightarrow> ResponseWriter" where
  "Fprintf w format = Write w format"

definition healthz :: "ResponseWriter \<Rightarrow> Request \<Rightarrow> ResponseWriter" where
  "healthz wr r = Fprintf wr (''OK'' @ [CHR 0x0A])"

subsection \<open>Interceptors\<close>

text \<open>\<open>time.Duration\<close> counts nanoseconds.\<close>

type_synonym Duration = int

definition Second :: Duration where
  "Second = 1000000000"

datatype Logger = DefaultLogger

text \<open>The constructors name the interceptor values the source passes to the chains.\<close>

datatype UnaryServerInterceptor =
    util_UnaryServerInterceptor
  | util_UnaryServerSleeperInterceptor Duration
  | grpc_validator_UnaryServerInterceptor
  | grpc_prometheus_UnaryServerInterceptor
  | grpc_zap_UnaryServerInterceptor Logger
  | grpc_recovery_UnaryServerInterceptor

datatype UnaryClientInterceptor =
    util_UnaryClientInterceptor
  | grpc_prometheus_UnaryClientInterceptor

datatype StreamClientInterceptor = grpc_prometheus_StreamClientInterceptor

text \<open>
  \<open>grpc_middleware.ChainUnaryServer\<close>: the first interceptor is the outermost one, each
  receives the request as its predecessor passed it on, and the handler is what the last
  one calls. An interceptor is a function of the request and of the rest of the call.
\<close>

fun ChainUnaryServer :: "('q \<Rightarrow> ('q \<Rightarrow> 'r) \<Rightarrow> 'r) list \<Rightarrow> 'q \<Rightarrow> ('q \<Rightarrow> 'r) \<Rightarrow> 'r" where
  "ChainUnaryServer [] req handler = handler req"
| "ChainUnaryServer (i # is) req handler = i req (\<lambda>req'. ChainUnaryServer is req' handler)"


subsection \<open>The server and what it owns\<close>

text \<open>
  The connection made by \<open>grpc.DialContext\<close>: its target and the dial options the source
  passes (\<open>WithInsecure\<close>, the unary chain given to \<open>ChainUnaryClient\<close>, the stream chain
  given to \<open>ChainStreamClient\<close>).
\<close>

record ClientConn =
  target :: string
  insecure :: bool
  unaryClientChain :: "UnaryClientInterceptor list"
  streamClientChain :: "StreamClientInterceptor list"

datatype ItemServiceClient = NewItemServiceClient ClientConn

text \<open>
  Modelled from the spec: \<open>orderStore\<close>, \<open>newOrderStore\<close> and \<open>LoadSampleData\<close> live in a file
  of the package that is not among the sources. The store keeps the item client it was
  built with; \<open>LoadSampleData\<close> is a bootstrap operation that fills in fixtures, of which
  the model keeps only how often it ran.
\<close>

record orderStore =
  storeItem :: ItemServiceClient
  sampleLoads :: nat

definition newOrderStore :: "ItemServiceClient \<Rightarrow> orderStore" where
  "newOrderStore it = \<lparr>storeItem = it, sampleLoads = 0\<rparr>"

definition LoadSampleData :: "orderStore \<Rightarrow> orderStore" where
  "LoadSampleData st = st\<lparr>sampleLoads := Suc (sampleLoads st)\<rparr>"

text \<open>
  \<open>grpc.NewServer\<close> with the \<open>UnaryInterceptor\<close> option: the list is the argument list of
  \<open>ChainUnaryServer\<close>. \<open>RegisterOrderServiceServer\<close> stores the service implementation.
\<close>

record grpc_Server =
  unaryServerChain :: "UnaryServerInterceptor list"
  orderService :: "orderStore option"

text \<open>
  The gateway multiplexer after \<open>RegisterOrderServiceHandlerFromEndpoint\<close>: the endpoint it
  dials and the dial option \<open>WithInsecure\<close>.
\<close>

record gwmux =
  gwEndpoint :: string
  gwInsecure :: bool

datatype mux_handler = promhttp_Handler | healthz_HandlerFunc | gwmux_Handler gwmux

datatype Listener = Listener string

text \<open>
  The \<open>http.Server\<close> built in \<open>Run\<close>: the routes registered in \<open>mux\<close> (the handler closure
  is \<open>Handler\<close> below), the listeners \<open>Serve\<close> is accepting on, and the shutdown flag.
\<close>

record http_Server =
  muxRoutes :: "(string \<times> mux_handler) list"
  listeners :: "Listener list"
  inShutdown :: bool

record Server =
  address :: string
  endpoint :: string
  server :: "http_Server option"
  grpc :: "grpc_Server option"
  store :: "orderStore option"
  item :: "ItemServiceClient option"

text \<open>
  An \<open>OptionsFunc\<close> receives the server by pointer and returns an error: here it returns
  the server as it left it, and the error.
\<close>

type_synonym OptionsFunc = "Server \<Rightarrow> Server \<times> error option"

definition SetAddress :: "string \<Rightarrow> OptionsFunc" where
  "SetAddress a = (\<lambda>s. (s\<lparr>address := a\<rparr>, None))"

definition SetEndpoint :: "string \<Rightarrow> OptionsFunc" where
  "SetEndpoint a = (\<lambda>s. (s\<lparr>endpoint := a\<rparr>, None))"

subsection \<open>The environment\<close>

text \<open>
  What the calls that leave the package answer. \<open>http_Serve\<close> is the blocking
  \<open>http.Server.Serve\<close>: it either keeps serving or returns an error value (the source
  tests it against nil, so nil is a possible answer of the model).
\<close>

datatype serve_outcome = Serving | ServeReturned "error option"

record Env =
  grpc_DialContext :: "string \<Rightarrow> error option"
  util_NewDefaultLogger :: "error + Logger"
  net_Listen :: "string \<Rightarrow> error + Listener"
  net_SplitHostPort :: "string \<Rightarrow> error + string \<times> string"
  RegisterOrderServiceHandlerFromEndpoint :: "string \<Rightarrow> error option"
  http_Serve :: "Listener \<Rightarrow> serve_outcome"

subsection \<open>New\<close>

text \<open>The calls \<open>New\<close> makes after the options loop, in the order it makes them.\<close>

datatype effect =
    Dialed ClientConn
  | CreatedItemClient
  | CreatedStore
  | LoadedSampleData

text \<open>The loop over the options: the first error ends it.\<close>

fun applyOptions :: "Server \<Rightarrow> OptionsFunc list \<Rightarrow> error + Server" where
  "applyOptions s [] = Inr s"
| "applyOptions s (f # fs) =
     (case f s of
        (s', Some err) \<Rightarrow> Inl err
      | (s', None) \<Rightarrow> applyOptions s' fs)"

definition defaultServer :: Server where
  "defaultServer = \<lparr>address = '':8080'', endpoint = ''127.0.0.1:9090'',
                     server = None, grpc = None, store = None, item = None\<rparr>"

definition dialConn :: "string \<Rightarrow> ClientConn" where
  "dialConn tgt = \<lparr>target = tgt, insecure = True,
       unaryClientChain = [util_UnaryClientInterceptor, grpc_prometheus_UnaryClientInterceptor],
       streamClientChain = [grpc_prometheus_StreamClientInterceptor]\<rparr>"

definition New :: "Env \<Rightarrow> OptionsFunc list \<Rightarrow> (error + Server) \<times> effect list" where
  "New env options =
     (case applyOptions defaultServer options of
        Inl err \<Rightarrow> (Inl (errors_Wrap err ''options function failed''), [])
      | Inr s \<Rightarrow>
          (let conn = dialConn (endpoint s) in
           case grpc_DialContext env (endpoint s) of
             Some err \<Rightarrow> (Inl (errors_Wrap err ''could not create grpc client''), [Dialed conn])
           | None \<Rightarrow>
               (let s1 = s\<lparr>item := Some (NewItemServiceClient conn)\<rparr>;
                    s2 = s1\<lparr>store := Some (newOrderStore (NewItemServiceClient conn))\<rparr>;
                    s3 = s2\<lparr>store := map_option LoadSampleData (store s2)\<rparr>
                in (Inr s3, [Dialed conn, CreatedItemClient, CreatedStore, LoadedSampleData]))))"

subsection \<open>Run\<close>

definition serverChain :: "Logger \<Rightarrow> UnaryServerInterceptor list" where
  "serverChain logger =
     [util_UnaryServerInterceptor,
      util_UnaryServerSleeperInterceptor (Second * 3),
      grpc_validator_UnaryServerInterceptor,
      grpc_prometheus_UnaryServerInterceptor,
      grpc_zap_UnaryServerInterceptor logger,
      grpc_recovery_UnaryServerInterceptor]"

datatype run_outcome = Blocks | Returns "error option"

text \<open>
  \<open>Run\<close> yields what the call does (it blocks in \<open>Serve\<close>, or returns) and the server as
  the call has left it: \<open>s.grpc\<close> is assigned before the address is split, \<open>s.server\<close> only
  once the gateway is registered.
\<close>

definition Run :: "Env \<Rightarrow> Server \<Rightarrow> run_outcome \<times> Server" where
  "Run env s =
     (case util_NewDefaultLogger env of
        Inl err \<Rightarrow> (Returns (Some (errors_Wrapf err ''failed to create logger'' [])), s)
      | Inr logger \<Rightarrow>
     (case net_Listen env (address s) of
        Inl err \<Rightarrow> (Returns (Some (errors_Wrapf err ''failed to listen on '' (address s))), s)
      | Inr l \<Rightarrow>
     (let s1 = s\<lparr>grpc := Some \<lparr>unaryServerChain = serverChain logger, orderService = None\<rparr>\<rparr> in
      case net_SplitHostPort env (address s1) of
        Inl err \<Rightarrow> (Returns (Some (errors_Wrapf err ''invalid address '' (address s1))), s1)
      | Inr (host, port) \<Rightarrow>
     (let gw = \<lparr>gwEndpoint = JoinHostPort ''127.0.0.1'' port, gwInsecure = True\<rparr> in
      case RegisterOrderServiceHandlerFromEndpoint env (gwEndpoint gw) of
        Some err \<Rightarrow> (Returns (Some (errors_Wrap err ''failed to register grpc gateway'')), s1)
      | None \<Rightarrow>
     (let s2 = s1\<lparr>grpc := map_option (\<lambda>g. g\<lparr>orderService := store s1\<rparr>) (grpc s1)\<rparr>;
          routes = [(''/metrics'', promhttp_Handler),
                    (''/healthz'', healthz_HandlerFunc),
                    (''/'', gwmux_Handler gw)];
          s3 = s2\<lparr>server := Some \<lparr>muxRoutes = routes, listeners = [], inShutdown = False\<rparr>\<rparr>
      in case http_Serve env l of
           Serving \<Rightarrow>
             (Blocks, s3\<lparr>server := map_option (\<lambda>srv. srv\<lparr>listeners := [l]\<rparr>) (server s3)\<rparr>)
         | ServeReturned None \<Rightarrow> (Returns None, s3)
         | ServeReturned (Some err) \<Rightarrow>
             (if err \<noteq> ErrServerClosed
              then (Returns (Some (errors_Wrap err ''failed to start http server'')), s3)
              else (Returns None, s3)))))))"


subsection \<open>The request handler\<close>

text \<open>
  The closure given to \<open>h2c.Server\<close> in \<open>Run\<close>, with its two branches as parameters:
  \<open>grpcServe\<close> stands for \<open>s.grpc.ServeHTTP\<close>, \<open>muxServe\<close> for \<open>mux.ServeHTTP\<close>.
\<close>

definition Handler :: "('w \<Rightarrow> Request \<Rightarrow> 'a) \<Rightarrow> ('w \<Rightarrow> Request \<Rightarrow> 'a) \<Rightarrow> 'w \<Rightarrow> Request \<Rightarrow> 'a" where
  "Handler grpcServe muxServe w r =
     (if ProtoMajor r = 2 \<and>
         Contains (Header_Get (Header r) ''Content-Type'') ''application/grpc''
      then grpcServe w r
      else muxServe w r)"

datatype dispatch = To_grpc_ServeHTTP | To_mux_ServeHTTP

text \<open>
  \<open>http.ServeMux\<close> on the path it matches: a pattern that ends in a slash matches every
  path it is a prefix of, any other pattern matches itself only; an exact match wins, then
  the longest matching pattern. (A path that is not in canonical form is answered with a
  redirect before any matching; the functions below start at the matching.)
\<close>

definition pathMatch :: "string \<Rightarrow> string \<Rightarrow> bool" where
  "pathMatch pattern path =
     (if pattern = [] then False
      else if last pattern \<noteq> CHR ''/'' then pattern = path
      else HasPrefix path pattern)"

fun longestMatch :: "(string \<times> 'h) list \<Rightarrow> string \<Rightarrow> (string \<times> 'h) option \<Rightarrow> (string \<times> 'h) option" where
  "longestMatch [] path best = best"
| "longestMatch ((k, h) # rest) path best =
     longestMatch rest path
       (if pathMatch k path \<and> (case best of None \<Rightarrow> True | Some (k', h') \<Rightarrow> length k' < length k)
        then Some (k, h) else best)"

definition ServeMux_match :: "(string \<times> 'h) list \<Rightarrow> string \<Rightarrow> 'h option" where
  "ServeMux_match routes path =
     (case map_of routes path of
        Some h \<Rightarrow> Some h
      | None \<Rightarrow> map_option snd (longestMatch routes path None))"

text \<open>\<open>http.NotFound\<close>, the answer of a \<open>ServeMux\<close> without a matching pattern.\<close>

definition NotFoundHandler :: "ResponseWriter \<Rightarrow> Request \<Rightarrow> ResponseWriter" where
  "NotFoundHandler w r = Write (WriteHeader w 404) (''404 page not found'' @ [CHR 0x0A])"

text \<open>
  The handlers that are not in the file, as parameters: the gRPC server's \<open>ServeHTTP\<close>,
  the metrics handler of \<open>promhttp\<close>, and the gateway multiplexer.
\<close>

record Handlers =
  grpc_ServeHTTP :: "grpc_Server \<Rightarrow> ResponseWriter \<Rightarrow> Request \<Rightarrow> ResponseWriter"
  promhttp_ServeHTTP :: "ResponseWriter \<Rightarrow> Request \<Rightarrow> ResponseWriter"
  gwmux_ServeHTTP :: "gwmux \<Rightarrow> ResponseWriter \<Rightarrow> Request \<Rightarrow> ResponseWriter"

definition mux_ServeHTTP :: "Handlers \<Rightarrow> (string \<times> mux_handler) list \<Rightarrow> ResponseWriter \<Rightarrow> Request \<Rightarrow> ResponseWriter" where
  "mux_ServeHTTP hs routes w r =
     (case ServeMux_match routes (Path r) of
        None \<Rightarrow> NotFoundHandler w r
      | Some promhttp_Handler \<Rightarrow> promhttp_ServeHTTP hs w r
      | Some healthz_HandlerFunc \<Rightarrow> healthz w r
      | Some (gwmux_Handler gw) \<Rightarrow> gwmux_ServeHTTP hs gw w r)"

text \<open>
  \<open>h2c.Server\<close> wraps the closure: it lets a connection speak HTTP/2 in clear text and
  gives every request, with the protocol version it arrived under, to its \<open>Handler\<close>.
  A \<open>Request\<close> here is the request as the closure receives it.
\<close>

definition h2c_Server_ServeHTTP :: "('w \<Rightarrow> Request \<Rightarrow> 'a) \<Rightarrow> 'w \<Rightarrow> Request \<Rightarrow> 'a" where
  "h2c_Server_ServeHTTP handler w r = handler w r"

text \<open>
  The response of the server that \<open>Run\<close> has set up to a request: what the handler has
  written to the response writer of that request. \<open>None\<close> when \<open>Run\<close> has not got as far
  as building the \<open>http.Server\<close>.
\<close>

definition Server_ServeHTTP :: "Handlers \<Rightarrow> Server \<Rightarrow> Request \<Rightarrow> ResponseWriter option" where
  "Server_ServeHTTP hs s r =
     (case server s of
        None \<Rightarrow> None
      | Some srv \<Rightarrow>
          (case grpc s of
             None \<Rightarrow> None
           | Some g \<Rightarrow>
               Some (h2c_Server_ServeHTTP
                       (Handler (grpc_ServeHTTP hs g) (mux_ServeHTTP hs (muxRoutes srv)))
                       (newResponseWriter r) r)))"

subsection \<open>Stop\<close>




subsection \<open>Calls through the gateway and calls over native RPC\<close>

record rpc_call =
  rpcMethod :: string
  rpcPayload :: string

datatype code = InvalidArgument | NotFound | Unauthenticated | Unavailable | Internal

datatype rpc_result = Reply string | Status code string

text \<open>
  The behaviour of the parts that are outside the file, as parameters: what each
  interceptor does with a call and the rest of the chain, what the registered service
  answers, what the gateway's generated routing table makes of an HTTP request (an RPC
  call, or the status it rejects the request with), and what a gRPC client reports when
  the HTTP multiplexer answers its request.
\<close>

record Behaviour =
  interceptorImpl :: "UnaryServerInterceptor \<Rightarrow> rpc_call \<Rightarrow> (rpc_call \<Rightarrow> rpc_result) \<Rightarrow> rpc_result"
  orderServiceImpl :: "orderStore option \<Rightarrow> rpc_call \<Rightarrow> rpc_result"
  gatewayTranslate :: "Request \<Rightarrow> rpc_result + rpc_call"
  muxAnswerAsRPC :: "Request \<Rightarrow> rpc_result"

text \<open>
  The gRPC server on a unary call: the interceptor installed with \<open>grpc.UnaryInterceptor\<close>
  wraps the handler of the registered service.
\<close>

definition grpc_Server_handle :: "Behaviour \<Rightarrow> grpc_Server \<Rightarrow> rpc_call \<Rightarrow> rpc_result" where
  "grpc_Server_handle b g call =
     ChainUnaryServer (map (interceptorImpl b) (unaryServerChain g)) call
       (orderServiceImpl b (orderService g))"

text \<open>
  A native RPC call on the wire is an HTTP/2 \<open>POST\<close> with content type
  \<open>application/grpc\<close>, the method as its path and the message as its body.
\<close>

definition grpcRequest :: "rpc_call \<Rightarrow> Request" where
  "grpcRequest call =
     \<lparr>ProtoMajor = 2, Method = ''POST'', Path = rpcMethod call,
      Header = [''Content-Type'' \<mapsto> [''application/grpc'']], Body = rpcPayload call\<rparr>"

definition grpcDecode :: "Request \<Rightarrow> rpc_call" where
  "grpcDecode r = \<lparr>rpcMethod = Path r, rpcPayload = Body r\<rparr>"

text \<open>The running server seen by an RPC client: the handler of \<open>Run\<close> decides who answers.\<close>

definition Server_serveRPC :: "Behaviour \<Rightarrow> Server \<Rightarrow> (Request \<Rightarrow> rpc_result) option" where
  "Server_serveRPC b s =
     (case server s of
        None \<Rightarrow> None
      | Some srv \<Rightarrow>
          (case grpc s of
             None \<Rightarrow> None
           | Some g \<Rightarrow>
               Some (h2c_Server_ServeHTTP
                       (Handler (\<lambda>w r. grpc_Server_handle b g (grpcDecode r))
                                (\<lambda>w r. muxAnswerAsRPC b r)) ())))"

text \<open>
  A client call to an endpoint: \<open>net\<close> tells which server accepts connections there; no
  server is a transport failure, \<open>Unavailable\<close>.
\<close>

definition invoke :: "(string \<Rightarrow> (Request \<Rightarrow> rpc_result) option) \<Rightarrow> string \<Rightarrow> rpc_call \<Rightarrow> rpc_result" where
  "invoke net ep call =
     (case net ep of
        None \<Rightarrow> Status Unavailable ''transport is closing''
      | Some srv \<Rightarrow> srv (grpcRequest call))"

text \<open>
  Modelled from the spec: the Gateway Translator (the generated
  \<open>RegisterOrderServiceHandlerFromEndpoint\<close> of package \<open>api/order\<close> and the gateway runtime
  are not among the sources). It maps the HTTP request to one RPC method or rejects it,
  calls the RPC server at its endpoint the way a native client does, and maps the status of
  the answer to the nearest HTTP status.
\<close>

definition httpStatus :: "rpc_result \<Rightarrow> nat" where
  "httpStatus res =
     (case res of
        Reply m \<Rightarrow> 200
      | Status InvalidArgument m \<Rightarrow> 400
      | Status NotFound m \<Rightarrow> 404
      | Status Unauthenticated m \<Rightarrow> 401
      | Status Unavailable m \<Rightarrow> 503
      | Status Internal m \<Rightarrow> 500)"

definition gateway :: "Behaviour \<Rightarrow> (string \<Rightarrow> (Request \<Rightarrow> rpc_result) option) \<Rightarrow> gwmux \<Rightarrow> Request \<Rightarrow> nat \<times> rpc_result" where
  "gateway b net gw r =
     (case gatewayTranslate b r of
        Inl rejected \<Rightarrow> (httpStatus rejected, rejected)
      | Inr call \<Rightarrow> (let res = invoke net (gwEndpoint gw) call in (httpStatus res, res)))"

subsection \<open>Reading the sleeper delay off a chain\<close>

fun sleeperDelays :: "UnaryServerInterceptor list \<Rightarrow> Duration list" where
  "sleeperDelays [] = []"
| "sleeperDelays (util_UnaryServerSleeperInterceptor d # is) = d # sleeperDelays is"
| "sleeperDelays (i # is) = sleeperDelays is"

text \<open>
  The delays of the sleeper stages in the chain of the server that \<open>New\<close> builds from
  the options and \<open>Run\<close> then starts; \<open>None\<close> when no gRPC server comes to exist.
\<close>

definition sleeperDelayOf :: "Env \<Rightarrow> OptionsFunc list \<Rightarrow> Duration list option" where
  "sleeperDelayOf env options =
     (case fst (New env options) of
        Inl err \<Rightarrow> None
      | Inr s \<Rightarrow> map_option (\<lambda>g. sleeperDelays (unaryServerChain g)) (grpc (snd (Run env s))))"

subsection \<open>Sample environments\<close>

text \<open>An environment in which every call succeeds and \<open>Serve\<close> keeps serving.\<close>

definition servingEnv :: Env where
  "servingEnv =
     \<lparr>grpc_DialContext = (\<lambda>tgt. None),
      util_NewDefaultLogger = Inr DefaultLogger,
      net_Listen = (\<lambda>a. Inr (Listener a)),
      net_SplitHostPort = SplitHostPort,
      RegisterOrderServiceHandlerFromEndpoint = (\<lambda>ep. None),
      http_Serve = (\<lambda>l. Serving)\<rparr>"


text \<open>The same environment with the listening address already in use.\<close>

definition bindFailsEnv :: Env where
  "bindFailsEnv = servingEnv\<lparr>net_Listen := (\<lambda>a. Inl (Failure ''address already in use''))\<rparr>"

text \<open>The server \<open>New\<close> returns without options when the dial succeeds.\<close>

definition builtServer :: Server where
  "builtServer =
     defaultServer
       \<lparr>store := Some \<lparr>storeItem = NewItemServiceClient (dialConn ''127.0.0.1:9090''),
                       sampleLoads = 1\<rparr>,
        item := Some (NewItemServiceClient (dialConn ''127.0.0.1:9090''))\<rparr>"

text \<open>
  Placeholders for the handlers outside the file, each writing a fixed text of its own.
  Nothing below depends on what they write.
\<close>

definition sampleHandlers :: Handlers where
  "sampleHandlers =
     \<lparr>grpc_ServeHTTP = (\<lambda>g w r. Write w ''grpc''),
      promhttp_ServeHTTP = (\<lambda>w r. Write w ''metrics''),
      gwmux_ServeHTTP = (\<lambda>gw w r. Write w ''gateway'')\<rparr>"

text \<open>A \<open>GET /healthz\<close> over HTTP/2 that carries the gRPC content type.\<close>

definition grpcHealthzRequest :: Request where
  "grpcHealthzRequest =
     \<lparr>ProtoMajor = 2, Method = ''GET'', Path = ''/healthz'',
      Header = [''Content-Type'' \<mapsto> [''application/grpc'']], Body = []\<rparr>"

text \<open>A \<open>HEAD /healthz\<close> over HTTP/1.1.\<close>

definition headHealthzRequest :: Request where
  "headHealthzRequest =
     \<lparr>ProtoMajor = 1, Method = ''HEAD'', Path = ''/healthz'', Header = Map.empty, Body = []\<rparr>"

text \<open>
  An HTTP/2 request whose content type has \<open>application/grpc\<close> in the middle, not at
  the start.
\<close>

definition embeddedGrpcRequest :: Request where
  "embeddedGrpcRequest =
     \<lparr>ProtoMajor = 2, Method = ''POST'', Path = ''/v1/orders'',
      Header = [''Content-Type'' \<mapsto> [''text/xapplication/grpcx'']], Body = []\<rparr>"

text \<open>
  The server \<open>New\<close> returns for the single option \<open>SetAddress("10.0.0.5:8080")\<close>, and a
  network on which only the address that server listens on leads to it, once it runs.
\<close>

definition otherHostServer :: Server where
  "otherHostServer = builtServer\<lparr>address := ''10.0.0.5:8080''\<rparr>"

definition otherHostNet :: "Behaviour \<Rightarrow> string \<Rightarrow> (Request \<Rightarrow> rpc_result) option" where
  "otherHostNet b ep =
     (if ep = ''10.0.0.5:8080'' then Server_serveRPC b (snd (Run servingEnv otherHostServer))
      else None)"

text \<open>A plain \<open>GET /healthz\<close> over HTTP/1.1.\<close>

definition plainHealthzRequest :: Request where
  "plainHealthzRequest =
     \<lparr>ProtoMajor = 1, Method = ''GET'', Path = ''/healthz'', Header = Map.empty, Body = []\<rparr>"

text \<open>
  Behaviour for the parts outside the file: interceptors that pass the call on unchanged,
  a service that echoes the message, a gateway table that takes the path for the method.
\<close>

definition sampleBehaviour :: Behaviour where
  "sampleBehaviour =
     \<lparr>interceptorImpl = (\<lambda>i call next. next call),
      orderServiceImpl = (\<lambda>st call. Reply (rpcPayload call)),
      gatewayTranslate = (\<lambda>r. Inr (grpcDecode r)),
      muxAnswerAsRPC = (\<lambda>r. Status Internal ''not a gRPC response'')\<rparr>"

section \<open>Properties\<close>

subsection \<open>Splitting the sample addresses\<close>

lemma SplitHostPort_default [simp]: "SplitHostPort '':8080'' = Inr ([], ''8080'')"
  by (simp add: SplitHostPort_def LastIndexByte_def splitRest_def)

lemma SplitHostPort_otherHost [simp]: "SplitHostPort ''10.0.0.5:8080'' = Inr (''10.0.0.5'', ''8080'')"
  by (simp add: SplitHostPort_def LastIndexByte_def splitRest_def)

subsection \<open>Substrings\<close>

lemma HasPrefix_append: "HasPrefix s p \<longleftrightarrow> (\<exists>post. s = p @ post)"
  by (induction s p rule: HasPrefix.induct) auto

lemma Contains_sublist: "Contains s sub \<longleftrightarrow> (\<exists>pre post. s = pre @ sub @ post)"
proof (induction s)
  case Nil
  then show ?case by auto
next
  case (Cons x xs)
  show ?case
  proof
    assume "Contains (x # xs) sub"
    then consider "HasPrefix (x # xs) sub" | "Contains xs sub" by auto
    then show "\<exists>pre post. x # xs = pre @ sub @ post"
    proof cases
      case 1
      then obtain post where "x # xs = sub @ post" by (auto simp: HasPrefix_append)
      then have "x # xs = [] @ sub @ post" by simp
      then show ?thesis by blast
    next
      case 2
      then obtain pre post where "xs = pre @ sub @ post" using Cons.IH by auto
      then have "x # xs = (x # pre) @ sub @ post" by simp
      then show ?thesis by blast
    qed
  next
    assume "\<exists>pre post. x # xs = pre @ sub @ post"
    then obtain pre post where eq: "x # xs = pre @ sub @ post" by auto
    show "Contains (x # xs) sub"
    proof (cases pre)
      case Nil
      with eq have "HasPrefix (x # xs) sub" by (auto simp: HasPrefix_append)
      then show ?thesis by simp
    next
      case (Cons y pre')
      with eq have "xs = pre' @ sub @ post" by simp
      then have "Contains xs sub" using Cons.IH by auto
      then show ?thesis by simp
    qed
  qed
qed

subsection \<open>Routing between the gRPC server and the HTTP multiplexer\<close>

text \<open>
  C1, as the code has it. The handler of \<open>Run\<close> hands a request to the gRPC server exactly
  when its protocol major version is 2 and the first value of its \<open>Content-Type\<close> header
  contains the text \<open>application/grpc\<close> somewhere (\<open>strings.Contains\<close>: at the start or
  further in); every other request, also one without that header, goes to the HTTP
  multiplexer. Whatever the two branches do, the handler does what the chosen branch does
  with this request: the choice is a function of the protocol version and the header of the
  one request.
\<close>

theorem Handler_routing:
  "(Handler (\<lambda>w r. To_grpc_ServeHTTP) (\<lambda>w r. To_mux_ServeHTTP) w r = To_grpc_ServeHTTP)
     = (ProtoMajor r = 2 \<and>
        (\<exists>v vs pre post. Header r ''Content-Type'' = Some (v # vs)
                        \<and> v = pre @ ''application/grpc'' @ post))
   \<and> (Handler (\<lambda>w r. To_grpc_ServeHTTP) (\<lambda>w r. To_mux_ServeHTTP) w r = To_grpc_ServeHTTP)
     = (ProtoMajor r = 2 \<and>
        (\<exists>pre post. Header_Get (Header r) ''Content-Type'' = pre @ ''application/grpc'' @ post))
   \<and> (Handler (\<lambda>w r. To_grpc_ServeHTTP) (\<lambda>w r. To_mux_ServeHTTP) w r = To_mux_ServeHTTP)
     = (Handler (\<lambda>w r. To_grpc_ServeHTTP) (\<lambda>w r. To_mux_ServeHTTP) w r \<noteq> To_grpc_ServeHTTP)
   \<and> Handler grpcServe muxServe w r
     = (case Handler (\<lambda>w r. To_grpc_ServeHTTP) (\<lambda>w r. To_mux_ServeHTTP) w r of
          To_grpc_ServeHTTP \<Rightarrow> grpcServe w r
        | To_mux_ServeHTTP \<Rightarrow> muxServe w r)"
proof -
  have get: "(\<exists>pre post. Header_Get (Header r) ''Content-Type'' = pre @ ''application/grpc'' @ post)
      = (\<exists>v vs pre post. Header r ''Content-Type'' = Some (v # vs)
                        \<and> v = pre @ ''application/grpc'' @ post)"
    by (auto simp: Header_Get_def split: option.splits list.splits)
  have 2: "(Handler (\<lambda>w r. To_grpc_ServeHTTP) (\<lambda>w r. To_mux_ServeHTTP) w r = To_grpc_ServeHTTP)
     = (ProtoMajor r = 2 \<and>
        (\<exists>pre post. Header_Get (Header r) ''Content-Type'' = pre @ ''application/grpc'' @ post))"
    unfolding Handler_def Contains_sublist by simp
  have 3: "(Handler (\<lambda>w r. To_grpc_ServeHTTP) (\<lambda>w r. To_mux_ServeHTTP) w r = To_mux_ServeHTTP)
     = (Handler (\<lambda>w r. To_grpc_ServeHTTP) (\<lambda>w r. To_mux_ServeHTTP) w r \<noteq> To_grpc_ServeHTTP)"
    unfolding Handler_def by simp
  have 4: "Handler grpcServe muxServe w r
     = (case Handler (\<lambda>w r. To_grpc_ServeHTTP) (\<lambda>w r. To_mux_ServeHTTP) w r of
          To_grpc_ServeHTTP \<Rightarrow> grpcServe w r
        | To_mux_ServeHTTP \<Rightarrow> muxServe w r)"
    unfolding Handler_def by simp
  from 2 get have 1: "(Handler (\<lambda>w r. To_grpc_ServeHTTP) (\<lambda>w r. To_mux_ServeHTTP) w r = To_grpc_ServeHTTP)
     = (ProtoMajor r = 2 \<and>
        (\<exists>v vs pre post. Header r ''Content-Type'' = Some (v # vs)
                        \<and> v = pre @ ''application/grpc'' @ post))"
    by simp
  show ?thesis by (rule conjI [OF 1 conjI [OF 2 conjI [OF 3 4]]])
qed

text \<open>
  An HTTP/2 request with the content type \<open>text/xapplication/grpcx\<close> goes to the gRPC
  server, although \<open>application/grpc\<close> is not a prefix of that content type.
\<close>

theorem Handler_not_prefix_counterexample:
  "ProtoMajor embeddedGrpcRequest = 2
   \<and> Header_Get (Header embeddedGrpcRequest) ''Content-Type'' = ''text/xapplication/grpcx''
   \<and> \<not> HasPrefix ''text/xapplication/grpcx'' ''application/grpc''
   \<and> Handler (\<lambda>w r. To_grpc_ServeHTTP) (\<lambda>w r. To_mux_ServeHTTP) () embeddedGrpcRequest
       = To_grpc_ServeHTTP"
  by (simp add: embeddedGrpcRequest_def Header_Get_def Handler_def)

subsection \<open>The server-side interceptor chain\<close>

lemma Run_grpc_chain:
  assumes "util_NewDefaultLogger env = Inr logger" and "net_Listen env (address s) = Inr l"
  shows "\<exists>g. grpc (snd (Run env s)) = Some g \<and> unaryServerChain g = serverChain logger"
  using assms
  by (auto simp: Run_def Let_def split: sum.splits option.splits prod.splits serve_outcome.splits)

text \<open>
  C2. Once \<open>Run\<close> has a logger and a listener it builds the gRPC server, and the chain of
  that server is the six interceptors in the order of the source: identity propagation,
  sleeper, validation, metrics, logging, recovery. Every unary call the server handles
  runs through them nested in that order around the service, whatever each stage does;
  stages that only record their visit are visited in exactly the order of the list.
\<close>

theorem server_chain_order:
  assumes "util_NewDefaultLogger env = Inr logger" and "net_Listen env (address s) = Inr l"
  shows "\<exists>g. grpc (snd (Run env s)) = Some g
     \<and> unaryServerChain g =
         [util_UnaryServerInterceptor,
          util_UnaryServerSleeperInterceptor (Second * 3),
          grpc_validator_UnaryServerInterceptor,
          grpc_prometheus_UnaryServerInterceptor,
          grpc_zap_UnaryServerInterceptor logger,
          grpc_recovery_UnaryServerInterceptor]
     \<and> (\<forall>b call. grpc_Server_handle b g call =
          interceptorImpl b util_UnaryServerInterceptor call (\<lambda>c1.
          interceptorImpl b (util_UnaryServerSleeperInterceptor (Second * 3)) c1 (\<lambda>c2.
          interceptorImpl b grpc_validator_UnaryServerInterceptor c2 (\<lambda>c3.
          interceptorImpl b grpc_prometheus_UnaryServerInterceptor c3 (\<lambda>c4.
          interceptorImpl b (grpc_zap_UnaryServerInterceptor logger) c4 (\<lambda>c5.
          interceptorImpl b grpc_recovery_UnaryServerInterceptor c5
            (orderServiceImpl b (orderService g))))))))
     \<and> ChainUnaryServer (map (\<lambda>i seen next. next (seen @ [i])) (unaryServerChain g)) [] (\<lambda>seen. seen)
         = unaryServerChain g"
proof -
  obtain g where g: "grpc (snd (Run env s)) = Some g" "unaryServerChain g = serverChain logger"
    using Run_grpc_chain [OF assms] by blast
  have "\<forall>b call. grpc_Server_handle b g call =
          interceptorImpl b util_UnaryServerInterceptor call (\<lambda>c1.
          interceptorImpl b (util_UnaryServerSleeperInterceptor (Second * 3)) c1 (\<lambda>c2.
          interceptorImpl b grpc_validator_UnaryServerInterceptor c2 (\<lambda>c3.
          interceptorImpl b grpc_prometheus_UnaryServerInterceptor c3 (\<lambda>c4.
          interceptorImpl b (grpc_zap_UnaryServerInterceptor logger) c4 (\<lambda>c5.
          interceptorImpl b grpc_recovery_UnaryServerInterceptor c5
            (orderServiceImpl b (orderService g)))))))"
    by (simp add: grpc_Server_handle_def g serverChain_def)
  moreover have "ChainUnaryServer (map (\<lambda>i seen next. next (seen @ [i])) (unaryServerChain g)) [] (\<lambda>seen. seen)
         = unaryServerChain g"
    by (simp add: g serverChain_def)
  ultimately show ?thesis using g by (simp add: serverChain_def)
qed

theorem server_chain_order_witness:
  "\<exists>g. grpc (snd (Run servingEnv builtServer)) = Some g
     \<and> unaryServerChain g =
         [util_UnaryServerInterceptor,
          util_UnaryServerSleeperInterceptor 3000000000,
          grpc_validator_UnaryServerInterceptor,
          grpc_prometheus_UnaryServerInterceptor,
          grpc_zap_UnaryServerInterceptor DefaultLogger,
          grpc_recovery_UnaryServerInterceptor]
     \<and> grpc_Server_handle sampleBehaviour g \<lparr>rpcMethod = ''/order.OrderService/GetOrder'', rpcPayload = ''1''\<rparr> = Reply ''1''"
proof -
  have a: "util_NewDefaultLogger servingEnv = Inr DefaultLogger" by (simp add: servingEnv_def)
  have b: "net_Listen servingEnv (address builtServer) = Inr (Listener '':8080'')"
    by (simp add: servingEnv_def builtServer_def defaultServer_def)
  from server_chain_order [OF a b] obtain g where
    g: "grpc (snd (Run servingEnv builtServer)) = Some g"
       "unaryServerChain g =
         [util_UnaryServerInterceptor,
          util_UnaryServerSleeperInterceptor (Second * 3),
          grpc_validator_UnaryServerInterceptor,
          grpc_prometheus_UnaryServerInterceptor,
          grpc_zap_UnaryServerInterceptor DefaultLogger,
          grpc_recovery_UnaryServerInterceptor]"
       "\<And>b call. grpc_Server_handle b g call =
          interceptorImpl b util_UnaryServerInterceptor call (\<lambda>c1.
          interceptorImpl b (util_UnaryServerSleeperInterceptor (Second * 3)) c1 (\<lambda>c2.
          interceptorImpl b grpc_validator_UnaryServerInterceptor c2 (\<lambda>c3.
          interceptorImpl b grpc_prometheus_UnaryServerInterceptor c3 (\<lambda>c4.
          interceptorImpl b (grpc_zap_UnaryServerInterceptor DefaultLogger) c4 (\<lambda>c5.
          interceptorImpl b grpc_recovery_UnaryServerInterceptor c5
            (orderServiceImpl b (orderService g)))))))"
    by blast
  have "grpc_Server_handle sampleBehaviour g \<lparr>rpcMethod = ''/order.OrderService/GetOrder'', rpcPayload = ''1''\<rparr> = Reply ''1''"
    by (simp add: g(3) sampleBehaviour_def)
  with g(1,2) show ?thesis by (simp add: Second_def)
qed

subsection \<open>The sleeper delay\<close>

lemma New_servingEnv: "New servingEnv [] = (Inr builtServer, [Dialed (dialConn ''127.0.0.1:9090''), CreatedItemClient, CreatedStore, LoadedSampleData])"
  by (simp add: New_def servingEnv_def builtServer_def defaultServer_def newOrderStore_def LoadSampleData_def Let_def)

text \<open>
  C3, as the code has it. The delay of the sleeper stage is the constant three seconds
  (\<open>time.Second*3\<close>): whatever options \<open>New\<close> was given and whatever the environment,
  a server that gets as far as building its gRPC server has exactly one sleeper stage, with a
  delay of 3000000000 nanoseconds. No option and no field of the server reaches it.
\<close>

theorem sleeper_delay_fixed:
  assumes "fst (New env options) = Inr s"
    and "util_NewDefaultLogger env = Inr logger" and "net_Listen env (address s) = Inr l"
  shows "sleeperDelayOf env options = Some [3000000000]"
proof -
  obtain g where g: "grpc (snd (Run env s)) = Some g" "unaryServerChain g = serverChain logger"
    using Run_grpc_chain [OF assms(2,3)] by blast
  then show ?thesis
    by (simp add: sleeperDelayOf_def assms(1) serverChain_def Second_def)
qed

theorem sleeper_delay_fixed_witness:
  "sleeperDelayOf servingEnv [SetAddress ''127.0.0.1:7000'', SetEndpoint ''10.0.0.1:9090''] = Some [3000000000]"
proof -
  have a: "fst (New servingEnv [SetAddress ''127.0.0.1:7000'', SetEndpoint ''10.0.0.1:9090''])
        = Inr (defaultServer\<lparr>address := ''127.0.0.1:7000'', endpoint := ''10.0.0.1:9090'',
             store := Some \<lparr>storeItem = NewItemServiceClient (dialConn ''10.0.0.1:9090''), sampleLoads = 1\<rparr>,
             item := Some (NewItemServiceClient (dialConn ''10.0.0.1:9090''))\<rparr>)"
    by (simp add: New_def servingEnv_def defaultServer_def newOrderStore_def LoadSampleData_def
        Let_def SetAddress_def SetEndpoint_def)
  have b: "util_NewDefaultLogger servingEnv = Inr DefaultLogger" by (simp add: servingEnv_def)
  have c: "net_Listen servingEnv (address (defaultServer\<lparr>address := ''127.0.0.1:7000'', endpoint := ''10.0.0.1:9090'',
             store := Some \<lparr>storeItem = NewItemServiceClient (dialConn ''10.0.0.1:9090''), sampleLoads = 1\<rparr>,
             item := Some (NewItemServiceClient (dialConn ''10.0.0.1:9090''))\<rparr>)) = Inr (Listener ''127.0.0.1:7000'')"
    by (simp add: servingEnv_def)
  show ?thesis by (rule sleeper_delay_fixed [OF a b c])
qed

text \<open>
  With no options at all the delay is neither zero nor is the stage absent: the default
  is not \<open>disabled\<close>.
\<close>

theorem sleeper_delay_default_counterexample:
  "sleeperDelayOf servingEnv [] \<noteq> Some [0] \<and> sleeperDelayOf servingEnv [] \<noteq> Some []"
proof -
  have "grpc (snd (Run servingEnv builtServer))
       = Some \<lparr>unaryServerChain = serverChain DefaultLogger, orderService = store builtServer\<rparr>"
    by (simp add: Run_def servingEnv_def builtServer_def defaultServer_def Let_def)
  then have "sleeperDelayOf servingEnv [] = Some [3000000000]"
    by (simp add: sleeperDelayOf_def New_servingEnv serverChain_def Second_def)
  then show ?thesis by simp
qed

subsection \<open>What Run returns\<close>

lemma Run_reaches_Serve:
  assumes "util_NewDefaultLogger env = Inr logger"
    and "net_Listen env (address s) = Inr l"
    and "net_SplitHostPort env (address s) = Inr (host, port)"
    and "RegisterOrderServiceHandlerFromEndpoint env (JoinHostPort ''127.0.0.1'' port) = None"
  shows "fst (Run env s) =
     (case http_Serve env l of
        Serving \<Rightarrow> Blocks
      | ServeReturned None \<Rightarrow> Returns None
      | ServeReturned (Some err) \<Rightarrow>
          (if err = ErrServerClosed then Returns None
           else Returns (Some (Wrapped ''failed to start http server'' err))))"
  using assms
  by (simp add: Run_def Let_def errors_Wrap_def split: serve_outcome.splits option.splits)

lemma Run_bind_fails:
  assumes "net_Listen env (address s) = Inl e"
  shows "fst (Run env s) =
     (case util_NewDefaultLogger env of
        Inl e' \<Rightarrow> Returns (Some (Wrapped ''failed to create logger'' e'))
      | Inr logger \<Rightarrow> Returns (Some (Wrapped (''failed to listen on '' @ address s) e)))"
  using assms by (simp add: Run_def errors_Wrapf_def split: sum.splits)

text \<open>
  C5. When the listener cannot be bound \<open>Run\<close> returns an error (the wrapped bind error
  whenever the logger could be created first). When the listener, the address and the gateway
  registration are in order, \<open>Run\<close> does not return while \<open>Serve\<close> is serving; it returns
  nil when \<open>Serve\<close> ends with \<open>ErrServerClosed\<close>, the result of a shutdown; and it returns
  any other error of \<open>Serve\<close> wrapped.
\<close>

theorem Run_outcome:
  "(net_Listen env (address s) = Inl e \<longrightarrow>
      (\<exists>err. fst (Run env s) = Returns (Some err)) \<and>
      (\<forall>logger. util_NewDefaultLogger env = Inr logger \<longrightarrow>
         fst (Run env s) = Returns (Some (Wrapped (''failed to listen on '' @ address s) e))))
   \<and> (util_NewDefaultLogger env = Inr logger \<and>
      net_Listen env (address s) = Inr l \<and>
      net_SplitHostPort env (address s) = Inr (host, port) \<and>
      RegisterOrderServiceHandlerFromEndpoint env (JoinHostPort ''127.0.0.1'' port) = None \<longrightarrow>
        (http_Serve env l = Serving \<longrightarrow> fst (Run env s) = Blocks) \<and>
        (http_Serve env l = ServeReturned (Some ErrServerClosed) \<longrightarrow> fst (Run env s) = Returns None) \<and>
        (\<forall>err. http_Serve env l = ServeReturned (Some err) \<and> err \<noteq> ErrServerClosed \<longrightarrow>
           fst (Run env s) = Returns (Some (Wrapped ''failed to start http server'' err))))"
proof (intro conjI impI allI)
  assume a: "net_Listen env (address s) = Inl e"
  show "\<exists>err. fst (Run env s) = Returns (Some err)"
    using Run_bind_fails [OF a] by (cases "util_NewDefaultLogger env") auto
  fix logger assume "util_NewDefaultLogger env = Inr logger"
  then show "fst (Run env s) = Returns (Some (Wrapped (''failed to listen on '' @ address s) e))"
    using Run_bind_fails [OF a] by simp
next
  assume r: "util_NewDefaultLogger env = Inr logger \<and>
      net_Listen env (address s) = Inr l \<and>
      net_SplitHostPort env (address s) = Inr (host, port) \<and>
      RegisterOrderServiceHandlerFromEndpoint env (JoinHostPort ''127.0.0.1'' port) = None"
  then have eq: "fst (Run env s) =
     (case http_Serve env l of
        Serving \<Rightarrow> Blocks
      | ServeReturned None \<Rightarrow> Returns None
      | ServeReturned (Some err) \<Rightarrow>
          (if err = ErrServerClosed then Returns None
           else Returns (Some (Wrapped ''failed to start http server'' err))))"
    using Run_reaches_Serve by blast
  { assume "http_Serve env l = Serving"
    then show "fst (Run env s) = Blocks" using eq by simp }
  { assume "http_Serve env l = ServeReturned (Some ErrServerClosed)"
    then show "fst (Run env s) = Returns None" using eq by simp }
  { fix err assume "http_Serve env l = ServeReturned (Some err) \<and> err \<noteq> ErrServerClosed"
    then show "fst (Run env s) = Returns (Some (Wrapped ''failed to start http server'' err))"
      using eq by simp }
qed

theorem Run_outcome_witness:
  "fst (Run bindFailsEnv builtServer)
     = Returns (Some (Wrapped ''failed to listen on :8080'' (Failure ''address already in use'')))
   \<and> fst (Run servingEnv builtServer) = Blocks
   \<and> fst (Run (servingEnv\<lparr>http_Serve := (\<lambda>l. ServeReturned (Some ErrServerClosed))\<rparr>) builtServer)
       = Returns None
   \<and> fst (Run (servingEnv\<lparr>http_Serve := (\<lambda>l. ServeReturned (Some (Failure ''accept: too many open files'')))\<rparr>) builtServer)
       = Returns (Some (Wrapped ''failed to start http server'' (Failure ''accept: too many open files'')))"
proof -
  have addr: "address builtServer = '':8080''" by (simp add: builtServer_def defaultServer_def)
  have 1: "fst (Run bindFailsEnv builtServer)
     = Returns (Some (Wrapped ''failed to listen on :8080'' (Failure ''address already in use'')))"
    using Run_outcome [of bindFailsEnv builtServer "Failure ''address already in use''" DefaultLogger]
    by (simp add: bindFailsEnv_def servingEnv_def addr)
  have 2: "fst (Run servingEnv builtServer) = Blocks"
    using Run_outcome [of servingEnv builtServer _ DefaultLogger "Listener '':8080''" "[]" "''8080''"]
    by (simp add: servingEnv_def addr)
  have 3: "fst (Run (servingEnv\<lparr>http_Serve := (\<lambda>l. ServeReturned (Some ErrServerClosed))\<rparr>) builtServer)
       = Returns None"
    using Run_outcome [of "servingEnv\<lparr>http_Serve := (\<lambda>l. ServeReturned (Some ErrServerClosed))\<rparr>"
        builtServer _ DefaultLogger "Listener '':8080''" "[]" "''8080''"]
    by (simp add: servingEnv_def addr)
  have 4: "fst (Run (servingEnv\<lparr>http_Serve := (\<lambda>l. ServeReturned (Some (Failure ''accept: too many open files'')))\<rparr>) builtServer)
       = Returns (Some (Wrapped ''failed to start http server'' (Failure ''accept: too many open files'')))"
    using Run_outcome [of "servingEnv\<lparr>http_Serve := (\<lambda>l. ServeReturned (Some (Failure ''accept: too many open files'')))\<rparr>"
        builtServer _ DefaultLogger "Listener '':8080''" "[]" "''8080''"]
    by (simp add: servingEnv_def addr)
  from 1 2 3 4 show ?thesis by simp
qed

subsection \<open>Stop\<close>




lemma Run_servingEnv:
  "Run servingEnv builtServer =
     (Blocks, builtServer
       \<lparr>server := Some \<lparr>muxRoutes = [(''/metrics'', promhttp_Handler),
                                     (''/healthz'', healthz_HandlerFunc),
                                     (''/'', gwmux_Handler \<lparr>gwEndpoint = ''127.0.0.1:8080'', gwInsecure = True\<rparr>)],
                        listeners = [Listener '':8080''], inShutdown = False\<rparr>,
        grpc := Some \<lparr>unaryServerChain = serverChain DefaultLogger, orderService = store builtServer\<rparr>\<rparr>)"
  by (simp add: Run_def servingEnv_def builtServer_def defaultServer_def Let_def JoinHostPort_def)



subsection \<open>The health endpoint\<close>

lemma healthz_fresh:
  "healthz (newResponseWriter r) r =
     \<lparr>reqMethod = Method r, wroteHeader = True, status = 200,
      body = (if Method r = ''HEAD'' then [] else ''OK'' @ [CHR 0x0A])\<rparr>"
  by (simp add: healthz_def Fprintf_def Write_def WriteHeader_def newResponseWriter_def
      bodyAllowedForStatus_def Let_def)

lemma Run_routes:
  assumes "Run env s = (Blocks, s')"
  shows "\<exists>srv g gw. server s' = Some srv \<and> grpc s' = Some g
     \<and> muxRoutes srv = [(''/metrics'', promhttp_Handler), (''/healthz'', healthz_HandlerFunc),
                        (''/'', gwmux_Handler gw)]"
  using assms
  by (auto simp: Run_def Let_def split: sum.splits option.splits prod.splits serve_outcome.splits if_splits)

lemma match_healthz:
  "ServeMux_match [(''/metrics'', promhttp_Handler), (''/healthz'', healthz_HandlerFunc),
                        (''/'', gwmux_Handler gw)] ''/healthz'' = Some healthz_HandlerFunc"
  by (simp add: ServeMux_match_def)

text \<open>
  C7, as the code has it. While \<open>Run\<close> is serving, a request for the path \<open>/healthz\<close> that
  the handler sends to the HTTP multiplexer (any request that is not an HTTP/2 request with
  a content type containing \<open>application/grpc\<close>) is answered with status 200, and with the
  body \<open>OK\<close> and a newline unless its method is \<open>HEAD\<close>, whose response has no body. The
  answer is the same for every server state, so for every state of the store and of the
  item client, and whatever the handlers outside the file do.
\<close>

theorem healthz_ok:
  assumes "Run env s = (Blocks, s')"
    and "Path r = ''/healthz''"
    and "\<not> (ProtoMajor r = 2 \<and> Contains (Header_Get (Header r) ''Content-Type'') ''application/grpc'')"
  shows "\<exists>w. Server_ServeHTTP hs s' r = Some w \<and> wroteHeader w \<and> status w = 200
           \<and> body w = (if Method r = ''HEAD'' then [] else ''OK'' @ [CHR 0x0A])"
proof -
  obtain srv g gw where st: "server s' = Some srv" "grpc s' = Some g"
     "muxRoutes srv = [(''/metrics'', promhttp_Handler), (''/healthz'', healthz_HandlerFunc),
                        (''/'', gwmux_Handler gw)]"
    using Run_routes [OF assms(1)] by blast
  have "Handler (grpc_ServeHTTP hs g) (mux_ServeHTTP hs (muxRoutes srv)) (newResponseWriter r) r
          = mux_ServeHTTP hs (muxRoutes srv) (newResponseWriter r) r"
    using assms(3) unfolding Handler_def by (simp only: if_False)
  also have "\<dots> = healthz (newResponseWriter r) r"
    by (simp add: mux_ServeHTTP_def st(3) assms(2) match_healthz)
  finally have "Server_ServeHTTP hs s' r = Some (healthz (newResponseWriter r) r)"
    by (simp add: Server_ServeHTTP_def h2c_Server_ServeHTTP_def st)
  then show ?thesis by (simp add: healthz_fresh)
qed

theorem healthz_ok_witness:
  "\<exists>w. Server_ServeHTTP sampleHandlers (snd (Run servingEnv builtServer)) plainHealthzRequest = Some w
      \<and> wroteHeader w \<and> status w = 200 \<and> body w = ''OK'' @ [CHR 0x0A]"
proof -
  have a: "Run servingEnv builtServer = (Blocks, snd (Run servingEnv builtServer))"
    by (simp add: Run_servingEnv)
  have b: "Path plainHealthzRequest = ''/healthz''" by (simp add: plainHealthzRequest_def)
  have c: "\<not> (ProtoMajor plainHealthzRequest = 2 \<and>
       Contains (Header_Get (Header plainHealthzRequest) ''Content-Type'') ''application/grpc'')"
    by (simp add: plainHealthzRequest_def)
  have "Method plainHealthzRequest \<noteq> ''HEAD''" by (simp add: plainHealthzRequest_def)
  with healthz_ok [OF a b c, of sampleHandlers] show ?thesis by simp
qed

text \<open>
  Two requests for \<open>/healthz\<close> that are not answered with the body \<open>OK\<close>: a \<open>HEAD\<close>
  request reaches \<open>healthz\<close> and gets status 200 with an empty body; a request over HTTP/2
  with the content type \<open>application/grpc\<close> never reaches \<open>healthz\<close>, because the handler
  gives it to the gRPC server.
\<close>

theorem healthz_other_answers_counterexample:
  "Path headHealthzRequest = ''/healthz''
   \<and> map_option status (Server_ServeHTTP sampleHandlers (snd (Run servingEnv builtServer)) headHealthzRequest)
       = Some 200
   \<and> map_option body (Server_ServeHTTP sampleHandlers (snd (Run servingEnv builtServer)) headHealthzRequest)
       = Some []
   \<and> Path grpcHealthzRequest = ''/healthz''
   \<and> Handler (\<lambda>w r. To_grpc_ServeHTTP) (\<lambda>w r. To_mux_ServeHTTP) () grpcHealthzRequest
       = To_grpc_ServeHTTP"
proof -
  have "Server_ServeHTTP sampleHandlers (snd (Run servingEnv builtServer)) headHealthzRequest
       = Some (healthz (newResponseWriter headHealthzRequest) headHealthzRequest)"
    by (simp add: Run_servingEnv Server_ServeHTTP_def h2c_Server_ServeHTTP_def Handler_def
        mux_ServeHTTP_def match_healthz headHealthzRequest_def)
  moreover have "Handler (\<lambda>w r. To_grpc_ServeHTTP) (\<lambda>w r. To_mux_ServeHTTP) () grpcHealthzRequest
       = To_grpc_ServeHTTP"
    by (simp add: Handler_def grpcHealthzRequest_def Header_Get_def)
  ultimately show ?thesis
    by (simp add: healthz_fresh headHealthzRequest_def grpcHealthzRequest_def)
qed

subsection \<open>New and its options\<close>

lemma applyOptions_fails_iff:
  "applyOptions s options = Inl e \<longleftrightarrow>
     (\<exists>pre f post s' s''. options = pre @ f # post \<and> applyOptions s pre = Inr s' \<and> f s' = (s'', Some e))"
proof (induction options arbitrary: s)
  case Nil
  then show ?case by simp
next
  case (Cons g gs)
  obtain s1 r where g: "g s = (s1, r)" by (cases "g s")
  show ?case
  proof (cases r)
    case None
    have "applyOptions s (g # gs) = Inl e \<longleftrightarrow> applyOptions s1 gs = Inl e"
      using g None by simp
    also have "\<dots> \<longleftrightarrow> (\<exists>pre f post s' s''. gs = pre @ f # post \<and> applyOptions s1 pre = Inr s' \<and> f s' = (s'', Some e))"
      by (rule Cons.IH)
    also have "\<dots> \<longleftrightarrow> (\<exists>pre f post s' s''. g # gs = pre @ f # post \<and> applyOptions s pre = Inr s' \<and> f s' = (s'', Some e))"
    proof
      assume "\<exists>pre f post s' s''. gs = pre @ f # post \<and> applyOptions s1 pre = Inr s' \<and> f s' = (s'', Some e)"
      then obtain pre f post s' s'' where
        h: "gs = pre @ f # post" "applyOptions s1 pre = Inr s'" "f s' = (s'', Some e)" by blast
      have "g # gs = (g # pre) @ f # post" using h(1) by simp
      moreover have "applyOptions s (g # pre) = Inr s'" using g None h(2) by simp
      ultimately show "\<exists>pre f post s' s''. g # gs = pre @ f # post \<and> applyOptions s pre = Inr s' \<and> f s' = (s'', Some e)"
        using h(3) by blast
    next
      assume "\<exists>pre f post s' s''. g # gs = pre @ f # post \<and> applyOptions s pre = Inr s' \<and> f s' = (s'', Some e)"
      then obtain pre f post s' s'' where
        h: "g # gs = pre @ f # post" "applyOptions s pre = Inr s'" "f s' = (s'', Some e)" by blast
      show "\<exists>pre f post s' s''. gs = pre @ f # post \<and> applyOptions s1 pre = Inr s' \<and> f s' = (s'', Some e)"
      proof (cases pre)
        case Nil
        with h have "g s = (s'', Some e)" by simp
        with g None show ?thesis by simp
      next
        case (Cons p pre')
        with h(1) have "p = g" "gs = pre' @ f # post" by simp_all
        moreover have "applyOptions s1 pre' = Inr s'" using h(2) Cons \<open>p = g\<close> g None by simp
        ultimately show ?thesis using h(3) by blast
      qed
    qed
    finally show ?thesis .
  next
    case (Some e')
    have l: "applyOptions s (g # gs) = Inl e'" using g Some by simp
    show ?thesis
    proof
      assume "applyOptions s (g # gs) = Inl e"
      then have "e' = e" using l by simp
      then have "g # gs = [] @ g # gs \<and> applyOptions s [] = Inr s \<and> g s = (s1, Some e)"
        using g Some by simp
      then show "\<exists>pre f post s' s''. g # gs = pre @ f # post \<and> applyOptions s pre = Inr s' \<and> f s' = (s'', Some e)"
        by blast
    next
      assume "\<exists>pre f post s' s''. g # gs = pre @ f # post \<and> applyOptions s pre = Inr s' \<and> f s' = (s'', Some e)"
      then obtain pre f post s' s'' where
        h: "g # gs = pre @ f # post" "applyOptions s pre = Inr s'" "f s' = (s'', Some e)" by blast
      show "applyOptions s (g # gs) = Inl e"
      proof (cases pre)
        case Nil
        with h have "g s = (s'', Some e)" by simp
        then show ?thesis by simp
      next
        case (Cons p pre')
        with h(1) have "p = g" by simp
        then have "applyOptions s pre = Inl e'" using Cons g Some by simp
        with h(2) show ?thesis by simp
      qed
    qed
  qed
qed

text \<open>
  C10. When an options function returns an error (the function \<open>f\<close>, reached after the
  options before it have run without one), \<open>New\<close> returns no server and that error
  wrapped as \<open>options function failed\<close>, and it has made none of its calls: nothing is
  dialed, no item client and no store is created, no sample data is loaded.
\<close>

theorem New_option_failure:
  assumes "options = pre @ f # post"
    and "applyOptions defaultServer pre = Inr s'"
    and "f s' = (s'', Some e)"
  shows "New env options = (Inl (Wrapped ''options function failed'' e), [])"
proof -
  have "applyOptions defaultServer options = Inl e"
    using assms applyOptions_fails_iff by blast
  then show ?thesis by (simp add: New_def errors_Wrap_def)
qed

theorem New_option_failure_witness:
  "New servingEnv [SetEndpoint ''10.0.0.1:9090'', (\<lambda>s. (s\<lparr>address := ''x''\<rparr>, Some (Failure ''bad option''))), SetAddress '':1'']
     = (Inl (Wrapped ''options function failed'' (Failure ''bad option'')), [])"
proof -
  have a: "[SetEndpoint ''10.0.0.1:9090'', (\<lambda>s. (s\<lparr>address := ''x''\<rparr>, Some (Failure ''bad option''))), SetAddress '':1'']
      = [SetEndpoint ''10.0.0.1:9090''] @ (\<lambda>s. (s\<lparr>address := ''x''\<rparr>, Some (Failure ''bad option''))) # [SetAddress '':1'']"
    by simp
  have b: "applyOptions defaultServer [SetEndpoint ''10.0.0.1:9090''] = Inr (defaultServer\<lparr>endpoint := ''10.0.0.1:9090''\<rparr>)"
    by (simp add: SetEndpoint_def)
  have c: "(\<lambda>s. (s\<lparr>address := ''x''\<rparr>, Some (Failure ''bad option''))) (defaultServer\<lparr>endpoint := ''10.0.0.1:9090''\<rparr>)
      = (defaultServer\<lparr>endpoint := ''10.0.0.1:9090'', address := ''x''\<rparr>, Some (Failure ''bad option''))"
    by simp
  show ?thesis by (rule New_option_failure [OF a b c])
qed

lemma applyOptions_keeps_endpoint:
  assumes "applyOptions s options = Inr s'"
    and "\<forall>f\<in>set options. \<forall>t. endpoint (fst (f t)) = endpoint t"
  shows "endpoint s' = endpoint s"
  using assms
proof (induction options arbitrary: s)
  case Nil
  then show ?case by simp
next
  case (Cons g gs)
  obtain s1 r where g: "g s = (s1, r)" by (cases "g s")
  with Cons.prems(1) have r: "r = None" and rest: "applyOptions s1 gs = Inr s'"
    by (auto split: option.splits)
  have "endpoint s1 = endpoint s" using Cons.prems(2) g by (metis fst_conv list.set_intros(1))
  moreover have "endpoint s' = endpoint s1" using Cons.IH [OF rest] Cons.prems(2) by simp
  ultimately show ?case by simp
qed

lemma New_effects:
  assumes "applyOptions defaultServer options = Inr s"
  shows "New env options =
     (case grpc_DialContext env (endpoint s) of
        Some err \<Rightarrow> (Inl (Wrapped ''could not create grpc client'' err), [Dialed (dialConn (endpoint s))])
      | None \<Rightarrow>
          (Inr (s\<lparr>item := Some (NewItemServiceClient (dialConn (endpoint s))),
                  store := Some \<lparr>storeItem = NewItemServiceClient (dialConn (endpoint s)), sampleLoads = 1\<rparr>\<rparr>),
           [Dialed (dialConn (endpoint s)), CreatedItemClient, CreatedStore, LoadedSampleData]))"
  using assms
  by (simp add: New_def Let_def errors_Wrap_def newOrderStore_def LoadSampleData_def split: option.splits)

lemma applyOptions_SetEndpoint:
  assumes "applyOptions s0 (pre @ SetEndpoint a # post) = Inr s"
    and "\<forall>f\<in>set post. \<forall>t. endpoint (fst (f t)) = endpoint t"
  shows "endpoint s = a"
  using assms(1)
proof (induction pre arbitrary: s0)
  case Nil
  then have "applyOptions (s0\<lparr>endpoint := a\<rparr>) post = Inr s" by (simp add: SetEndpoint_def)
  from applyOptions_keeps_endpoint [OF this assms(2)] show ?case by simp
next
  case (Cons g gs)
  obtain s1 r where g: "g s0 = (s1, r)" by (cases "g s0")
  with Cons.prems have "applyOptions s1 (gs @ SetEndpoint a # post) = Inr s"
    by (auto split: option.splits)
  then show ?case by (rule Cons.IH)
qed

text \<open>
  C9. When the options have run without an error, the first call of \<open>New\<close> dials the
  endpoint the options have left in the server, with the unary client chain made of identity
  propagation (\<open>util.UnaryClientInterceptor\<close>) and client metrics
  (\<open>grpc_prometheus.UnaryClientInterceptor\<close>) and nothing else. When no option changes the
  endpoint, the target is the default \<open>127.0.0.1:9090\<close>; when \<open>SetEndpoint a\<close> is among
  the options and no later option changes the endpoint, the target is \<open>a\<close>. The item
  client of the server that \<open>New\<close> returns, and the one its store holds, are built on that
  connection.
\<close>

theorem New_dials_endpoint:
  assumes "applyOptions defaultServer options = Inr s"
  shows "\<exists>conn rest. snd (New env options) = Dialed conn # rest
     \<and> target conn = endpoint s
     \<and> unaryClientChain conn = [util_UnaryClientInterceptor, grpc_prometheus_UnaryClientInterceptor]
     \<and> ((\<forall>f\<in>set options. \<forall>t. endpoint (fst (f t)) = endpoint t) \<longrightarrow> target conn = ''127.0.0.1:9090'')
     \<and> (\<forall>pre a post. options = pre @ SetEndpoint a # post
            \<and> (\<forall>f\<in>set post. \<forall>t. endpoint (fst (f t)) = endpoint t) \<longrightarrow> target conn = a)
     \<and> (\<forall>s'. fst (New env options) = Inr s' \<longrightarrow>
           item s' = Some (NewItemServiceClient conn)
         \<and> map_option storeItem (store s') = Some (NewItemServiceClient conn))"
proof -
  let ?conn = "dialConn (endpoint s)"
  have 1: "\<exists>rest. snd (New env options) = Dialed ?conn # rest"
    by (cases "grpc_DialContext env (endpoint s)") (simp_all add: New_effects [OF assms])
  have 2: "target ?conn = endpoint s"
    and 3: "unaryClientChain ?conn = [util_UnaryClientInterceptor, grpc_prometheus_UnaryClientInterceptor]"
    by (simp_all add: dialConn_def)
  have 4: "(\<forall>f\<in>set options. \<forall>t. endpoint (fst (f t)) = endpoint t) \<longrightarrow> target ?conn = ''127.0.0.1:9090''"
  proof
    assume "\<forall>f\<in>set options. \<forall>t. endpoint (fst (f t)) = endpoint t"
    from applyOptions_keeps_endpoint [OF assms this]
    show "target ?conn = ''127.0.0.1:9090''" by (simp add: dialConn_def defaultServer_def)
  qed
  have 5: "\<forall>pre a post. options = pre @ SetEndpoint a # post
            \<and> (\<forall>f\<in>set post. \<forall>t. endpoint (fst (f t)) = endpoint t) \<longrightarrow> target ?conn = a"
  proof (intro allI impI)
    fix pre a post
    assume h: "options = pre @ SetEndpoint a # post
            \<and> (\<forall>f\<in>set post. \<forall>t. endpoint (fst (f t)) = endpoint t)"
    then have "applyOptions defaultServer (pre @ SetEndpoint a # post) = Inr s"
      using assms by simp
    from applyOptions_SetEndpoint [OF this] h have "endpoint s = a" by blast
    then show "target ?conn = a" by (simp add: dialConn_def)
  qed
  have 6: "\<forall>s'. fst (New env options) = Inr s' \<longrightarrow>
           item s' = Some (NewItemServiceClient ?conn)
         \<and> map_option storeItem (store s') = Some (NewItemServiceClient ?conn)"
    by (cases "grpc_DialContext env (endpoint s)") (auto simp add: New_effects [OF assms])
  from 1 obtain rest where r: "snd (New env options) = Dialed ?conn # rest" ..
  note all = conjI [OF r conjI [OF 2 conjI [OF 3 conjI [OF 4 conjI [OF 5 6]]]]]
  show ?thesis
    by (rule exI [of _ ?conn], rule exI [of _ rest]) (rule all)
qed

theorem New_dials_endpoint_witness:
  "(\<exists>conn rest. snd (New servingEnv [SetEndpoint ''10.0.0.1:9090'', SetAddress '':7000'']) = Dialed conn # rest
     \<and> target conn = ''10.0.0.1:9090''
     \<and> unaryClientChain conn = [util_UnaryClientInterceptor, grpc_prometheus_UnaryClientInterceptor]
     \<and> (\<exists>s'. fst (New servingEnv [SetEndpoint ''10.0.0.1:9090'', SetAddress '':7000'']) = Inr s'
           \<and> item s' = Some (NewItemServiceClient conn)))
   \<and> (\<exists>conn rest. snd (New servingEnv [SetAddress '':7000'']) = Dialed conn # rest
     \<and> target conn = ''127.0.0.1:9090''
     \<and> unaryClientChain conn = [util_UnaryClientInterceptor, grpc_prometheus_UnaryClientInterceptor])"
proof -
  let ?opts = "[SetEndpoint ''10.0.0.1:9090'', SetAddress '':7000'']"
  have keep: "\<forall>f\<in>set [SetAddress '':7000'']. \<forall>t. endpoint (fst (f t)) = endpoint t"
    by (simp add: SetAddress_def)
  have a: "applyOptions defaultServer ?opts
             = Inr (defaultServer\<lparr>endpoint := ''10.0.0.1:9090'', address := '':7000''\<rparr>)"
    by (simp add: SetAddress_def SetEndpoint_def)
  have ok: "\<exists>s'. fst (New servingEnv ?opts) = Inr s'"
    by (simp add: New_effects [OF a] servingEnv_def)
  then obtain s' where s': "fst (New servingEnv ?opts) = Inr s'" ..
  from New_dials_endpoint [OF a, of servingEnv] obtain conn rest where
    c: "snd (New servingEnv ?opts) = Dialed conn # rest"
       "unaryClientChain conn = [util_UnaryClientInterceptor, grpc_prometheus_UnaryClientInterceptor]"
       "\<forall>pre a post. ?opts = pre @ SetEndpoint a # post
            \<and> (\<forall>f\<in>set post. \<forall>t. endpoint (fst (f t)) = endpoint t) \<longrightarrow> target conn = a"
       "\<forall>s'. fst (New servingEnv ?opts) = Inr s' \<longrightarrow>
           item s' = Some (NewItemServiceClient conn)
         \<and> map_option storeItem (store s') = Some (NewItemServiceClient conn)"
    by blast
  have "?opts = [] @ SetEndpoint ''10.0.0.1:9090'' # [SetAddress '':7000'']" by simp
  with c(3) keep have t: "target conn = ''10.0.0.1:9090''" by blast
  have i: "item s' = Some (NewItemServiceClient conn)" using c(4) s' by simp
  have first: "\<exists>conn rest. snd (New servingEnv ?opts) = Dialed conn # rest
     \<and> target conn = ''10.0.0.1:9090''
     \<and> unaryClientChain conn = [util_UnaryClientInterceptor, grpc_prometheus_UnaryClientInterceptor]
     \<and> (\<exists>s'. fst (New servingEnv ?opts) = Inr s' \<and> item s' = Some (NewItemServiceClient conn))"
    apply (rule exI [of _ conn], rule exI [of _ rest])
    using c(1,2) t s' i by simp
  have b: "applyOptions defaultServer [SetAddress '':7000''] = Inr (defaultServer\<lparr>address := '':7000''\<rparr>)"
    by (simp add: SetAddress_def)
  from New_dials_endpoint [OF b, of servingEnv] obtain conn2 rest2 where
    d: "snd (New servingEnv [SetAddress '':7000'']) = Dialed conn2 # rest2"
       "unaryClientChain conn2 = [util_UnaryClientInterceptor, grpc_prometheus_UnaryClientInterceptor]"
       "(\<forall>f\<in>set [SetAddress '':7000'']. \<forall>t. endpoint (fst (f t)) = endpoint t) \<longrightarrow> target conn2 = ''127.0.0.1:9090''"
    by blast
  have t2: "target conn2 = ''127.0.0.1:9090''" using d(3) keep by (rule mp)
  have second: "\<exists>conn rest. snd (New servingEnv [SetAddress '':7000'']) = Dialed conn # rest
     \<and> target conn = ''127.0.0.1:9090''
     \<and> unaryClientChain conn = [util_UnaryClientInterceptor, grpc_prometheus_UnaryClientInterceptor]"
    apply (rule exI [of _ conn2], rule exI [of _ rest2])
    using d(1,2) t2 by simp
  from first second show ?thesis by (rule conjI)
qed

text \<open>
  C8, what the code does. For every environment and every list of options, \<open>New\<close> calls
  \<open>LoadSampleData\<close> exactly once whenever it returns a server, and never otherwise: no
  option and no field of the server decides whether the sample data is loaded.
\<close>

theorem New_loads_sample_data_always:
  "count_list (snd (New env options)) LoadedSampleData = (if isl (fst (New env options)) then 0 else 1)
   \<and> (case fst (New env options) of
        Inl err \<Rightarrow> True
      | Inr s \<Rightarrow> map_option sampleLoads (store s) = Some 1)"
proof (cases "applyOptions defaultServer options")
  case (Inl e)
  then show ?thesis by (simp add: New_def)
next
  case (Inr s)
  show ?thesis
    by (cases "grpc_DialContext env (endpoint s)") (simp_all add: New_effects [OF Inr])
qed

subsection \<open>The gateway and native RPC\<close>

lemma Run_Blocks:
  assumes "Run env s = (Blocks, s')"
  shows "\<exists>logger l host port.
       util_NewDefaultLogger env = Inr logger
     \<and> net_Listen env (address s) = Inr l
     \<and> net_SplitHostPort env (address s) = Inr (host, port)
     \<and> server s' = Some \<lparr>muxRoutes = [(''/metrics'', promhttp_Handler),
                                       (''/healthz'', healthz_HandlerFunc),
                                       (''/'', gwmux_Handler \<lparr>gwEndpoint = JoinHostPort ''127.0.0.1'' port,
                                                              gwInsecure = True\<rparr>)],
                          listeners = [l], inShutdown = False\<rparr>
     \<and> grpc s' = Some \<lparr>unaryServerChain = serverChain logger, orderService = store s\<rparr>"
  using assms
  by (auto simp: Run_def Let_def split: sum.splits option.splits prod.splits serve_outcome.splits if_splits)

lemma grpcRequest_is_grpc:
  "Handler grpcServe muxServe w (grpcRequest call) = grpcServe w (grpcRequest call)"
  by (simp add: Handler_def grpcRequest_def Header_Get_def)

lemma grpcDecode_grpcRequest: "grpcDecode (grpcRequest call) = call"
  by (simp add: grpcDecode_def grpcRequest_def)

lemma invoke_serving:
  assumes "net ep = Server_serveRPC b s'" and "server s' = Some srv" and "grpc s' = Some g"
  shows "invoke net ep call = grpc_Server_handle b g call"
  using assms
  by (simp add: invoke_def Server_serveRPC_def h2c_Server_ServeHTTP_def grpcRequest_is_grpc
      grpcDecode_grpcRequest)

text \<open>
  C4, as the code has it. While \<open>Run\<close> is serving, the route \<open>/\<close> of the multiplexer is the
  gateway, and the endpoint it was registered with is \<open>127.0.0.1\<close> and the port of the
  server's listen address, whatever the host of that address; the gateway holds nothing of
  the server but that endpoint. When connections to that endpoint arrive at this server (the
  server listens on the loopback address or on all addresses), a request that the gateway
  translates into an RPC call
  is answered with what the server's gRPC server answers to the call, the six-stage chain
  around the registered store, under the HTTP status of that answer; and a native client
  that sends the same call to the server gets the same answer.
\<close>

theorem gateway_loopback:
  assumes "Run env s = (Blocks, s')"
    and "net_SplitHostPort env (address s) = Inr (host, port)"
    and "net (''127.0.0.1:'' @ port) = Server_serveRPC b s'"
    and "gatewayTranslate b r = Inr call"
  shows "\<exists>srv g gw logger.
       server s' = Some srv \<and> grpc s' = Some g
     \<and> muxRoutes srv = [(''/metrics'', promhttp_Handler), (''/healthz'', healthz_HandlerFunc),
                        (''/'', gwmux_Handler gw)]
     \<and> gwEndpoint gw = ''127.0.0.1:'' @ port
     \<and> unaryServerChain g = serverChain logger \<and> orderService g = store s
     \<and> gateway b net gw r = (httpStatus (grpc_Server_handle b g call), grpc_Server_handle b g call)
     \<and> (\<forall>ep. net ep = Server_serveRPC b s' \<longrightarrow> invoke net ep call = grpc_Server_handle b g call)"
proof -
  from Run_Blocks [OF assms(1)] assms(2) obtain logger l where
    srv: "server s' = Some \<lparr>muxRoutes = [(''/metrics'', promhttp_Handler),
                                       (''/healthz'', healthz_HandlerFunc),
                                       (''/'', gwmux_Handler \<lparr>gwEndpoint = JoinHostPort ''127.0.0.1'' port,
                                                              gwInsecure = True\<rparr>)],
                          listeners = [l], inShutdown = False\<rparr>"
    and g: "grpc s' = Some \<lparr>unaryServerChain = serverChain logger, orderService = store s\<rparr>"
    by auto
  let ?srv = "\<lparr>muxRoutes = [(''/metrics'', promhttp_Handler),
                                       (''/healthz'', healthz_HandlerFunc),
                                       (''/'', gwmux_Handler \<lparr>gwEndpoint = JoinHostPort ''127.0.0.1'' port,
                                                              gwInsecure = True\<rparr>)],
                          listeners = [l], inShutdown = False\<rparr>"
  let ?g = "\<lparr>unaryServerChain = serverChain logger, orderService = store s\<rparr>"
  let ?gw = "\<lparr>gwEndpoint = JoinHostPort ''127.0.0.1'' port, gwInsecure = True\<rparr>"
  have ep: "gwEndpoint ?gw = ''127.0.0.1:'' @ port" by (simp add: JoinHostPort_def)
  have inv: "\<forall>ep. net ep = Server_serveRPC b s' \<longrightarrow> invoke net ep call = grpc_Server_handle b ?g call"
    using invoke_serving [OF _ srv g] by blast
  have "invoke net (gwEndpoint ?gw) call = grpc_Server_handle b ?g call"
    using inv assms(3) ep by simp
  then have gw: "gateway b net ?gw r = (httpStatus (grpc_Server_handle b ?g call), grpc_Server_handle b ?g call)"
    by (simp add: gateway_def assms(4) Let_def)
  have r: "muxRoutes ?srv = [(''/metrics'', promhttp_Handler), (''/healthz'', healthz_HandlerFunc),
                        (''/'', gwmux_Handler ?gw)]" by simp
  have c: "unaryServerChain ?g = serverChain logger" and o: "orderService ?g = store s" by simp_all
  note all = conjI [OF srv conjI [OF g conjI [OF r conjI [OF ep conjI [OF c conjI [OF o conjI [OF gw inv]]]]]]]
  show ?thesis
    by (rule exI [of _ ?srv], rule exI [of _ ?g], rule exI [of _ ?gw], rule exI [of _ logger]) (rule all)
qed


theorem gateway_loopback_witness:
  "gateway sampleBehaviour
     (\<lambda>ep. if ep = ''127.0.0.1:8080''
           then Server_serveRPC sampleBehaviour (snd (Run servingEnv builtServer)) else None)
     \<lparr>gwEndpoint = ''127.0.0.1:8080'', gwInsecure = True\<rparr>
     \<lparr>ProtoMajor = 1, Method = ''GET'', Path = ''/v1/orders/1'', Header = Map.empty, Body = ''{}''\<rparr>
   = (200, Reply ''{}'')
   \<and> invoke
     (\<lambda>ep. if ep = ''127.0.0.1:8080''
           then Server_serveRPC sampleBehaviour (snd (Run servingEnv builtServer)) else None)
     ''127.0.0.1:8080'' \<lparr>rpcMethod = ''/v1/orders/1'', rpcPayload = ''{}''\<rparr>
   = Reply ''{}''"
proof -
  let ?s' = "snd (Run servingEnv builtServer)"
  let ?net = "\<lambda>ep. if ep = ''127.0.0.1:8080'' then Server_serveRPC sampleBehaviour ?s' else None"
  let ?r = "\<lparr>ProtoMajor = 1, Method = ''GET'', Path = ''/v1/orders/1'', Header = Map.empty, Body = ''{}''\<rparr>"
  let ?call = "\<lparr>rpcMethod = ''/v1/orders/1'', rpcPayload = ''{}''\<rparr>"
  have a: "Run servingEnv builtServer = (Blocks, ?s')" by (simp add: Run_servingEnv)
  have b: "net_SplitHostPort servingEnv (address builtServer) = Inr ([], ''8080'')"
    by (simp add: servingEnv_def builtServer_def defaultServer_def)
  have c: "?net (''127.0.0.1:'' @ ''8080'') = Server_serveRPC sampleBehaviour ?s'" by simp
  have d: "gatewayTranslate sampleBehaviour ?r = Inr ?call"
    by (simp add: sampleBehaviour_def grpcDecode_def)
  from gateway_loopback [of servingEnv builtServer ?s' "[]" "''8080''" ?net sampleBehaviour ?r ?call, OF a b c d]
  obtain srv g gw where
    h: "server ?s' = Some srv" "grpc ?s' = Some g"
       "muxRoutes srv = [(''/metrics'', promhttp_Handler), (''/healthz'', healthz_HandlerFunc),
                        (''/'', gwmux_Handler gw)]"
       "gwEndpoint gw = ''127.0.0.1:'' @ ''8080''"
       "gateway sampleBehaviour ?net gw ?r
          = (httpStatus (grpc_Server_handle sampleBehaviour g ?call), grpc_Server_handle sampleBehaviour g ?call)"
       "\<forall>ep. ?net ep = Server_serveRPC sampleBehaviour ?s' \<longrightarrow>
             invoke ?net ep ?call = grpc_Server_handle sampleBehaviour g ?call"
    by blast
  from h(1,3) have gw: "gw = \<lparr>gwEndpoint = ''127.0.0.1:8080'', gwInsecure = True\<rparr>"
    by (auto simp add: Run_servingEnv)
  from h(2) have g: "g = \<lparr>unaryServerChain = serverChain DefaultLogger, orderService = store builtServer\<rparr>"
    by (auto simp add: Run_servingEnv)
  have res: "grpc_Server_handle sampleBehaviour g ?call = Reply ''{}''"
    by (simp add: g grpc_Server_handle_def serverChain_def sampleBehaviour_def)
  have 1: "gateway sampleBehaviour ?net \<lparr>gwEndpoint = ''127.0.0.1:8080'', gwInsecure = True\<rparr> ?r = (200, Reply ''{}'')"
    using h(5) by (simp add: gw res httpStatus_def)
  have "invoke ?net ''127.0.0.1:8080'' ?call = grpc_Server_handle sampleBehaviour g ?call"
    using h(6) by simp
  then have 2: "invoke ?net ''127.0.0.1:8080'' ?call = Reply ''{}''" by (simp add: res)
  from 1 2 show ?thesis by (rule conjI)
qed


text \<open>
  The server built with \<open>SetAddress("10.0.0.5:8080")\<close> listens on that host only, and its
  gateway calls \<open>127.0.0.1:8080\<close>, where nothing of it listens: the request through the
  gateway is answered 503, \<open>Unavailable\<close>, while the same call made natively to the server's
  address is answered by the service.
\<close>

theorem gateway_other_host_counterexample:
  "fst (New servingEnv [SetAddress ''10.0.0.5:8080'']) = Inr otherHostServer
   \<and> fst (Run servingEnv otherHostServer) = Blocks
   \<and> map_option muxRoutes (server (snd (Run servingEnv otherHostServer)))
       = Some [(''/metrics'', promhttp_Handler), (''/healthz'', healthz_HandlerFunc),
               (''/'', gwmux_Handler \<lparr>gwEndpoint = ''127.0.0.1:8080'', gwInsecure = True\<rparr>)]
   \<and> fst (gateway sampleBehaviour (otherHostNet sampleBehaviour)
            \<lparr>gwEndpoint = ''127.0.0.1:8080'', gwInsecure = True\<rparr>
            \<lparr>ProtoMajor = 1, Method = ''GET'', Path = ''/v1/orders/1'', Header = Map.empty, Body = ''{}''\<rparr>)
       = 503
   \<and> invoke (otherHostNet sampleBehaviour) ''10.0.0.5:8080''
         \<lparr>rpcMethod = ''/v1/orders/1'', rpcPayload = ''{}''\<rparr>
       = Reply ''{}''
   \<and> snd (gateway sampleBehaviour (otherHostNet sampleBehaviour)
            \<lparr>gwEndpoint = ''127.0.0.1:8080'', gwInsecure = True\<rparr>
            \<lparr>ProtoMajor = 1, Method = ''GET'', Path = ''/v1/orders/1'', Header = Map.empty, Body = ''{}''\<rparr>)
       \<noteq> invoke (otherHostNet sampleBehaviour) ''10.0.0.5:8080''
            \<lparr>rpcMethod = ''/v1/orders/1'', rpcPayload = ''{}''\<rparr>"
proof -
  have new: "fst (New servingEnv [SetAddress ''10.0.0.5:8080'']) = Inr otherHostServer"
    by (simp add: New_def servingEnv_def otherHostServer_def builtServer_def defaultServer_def
        newOrderStore_def LoadSampleData_def SetAddress_def Let_def)
  have run: "Run servingEnv otherHostServer =
     (Blocks, otherHostServer
       \<lparr>server := Some \<lparr>muxRoutes = [(''/metrics'', promhttp_Handler),
                                     (''/healthz'', healthz_HandlerFunc),
                                     (''/'', gwmux_Handler \<lparr>gwEndpoint = ''127.0.0.1:8080'', gwInsecure = True\<rparr>)],
                        listeners = [Listener ''10.0.0.5:8080''], inShutdown = False\<rparr>,
        grpc := Some \<lparr>unaryServerChain = serverChain DefaultLogger, orderService = store otherHostServer\<rparr>\<rparr>)"
    by (simp add: Run_def servingEnv_def otherHostServer_def builtServer_def defaultServer_def
        Let_def JoinHostPort_def)
  have gw: "gateway sampleBehaviour (otherHostNet sampleBehaviour)
            \<lparr>gwEndpoint = ''127.0.0.1:8080'', gwInsecure = True\<rparr>
            \<lparr>ProtoMajor = 1, Method = ''GET'', Path = ''/v1/orders/1'', Header = Map.empty, Body = ''{}''\<rparr>
       = (503, Status Unavailable ''transport is closing'')"
    by (simp add: gateway_def sampleBehaviour_def invoke_def otherHostNet_def httpStatus_def Let_def)
  have n: "otherHostNet sampleBehaviour ''10.0.0.5:8080''
          = Server_serveRPC sampleBehaviour (snd (Run servingEnv otherHostServer))"
    by (simp add: otherHostNet_def)
  have sv: "server (snd (Run servingEnv otherHostServer))
      = Some \<lparr>muxRoutes = [(''/metrics'', promhttp_Handler),
                                     (''/healthz'', healthz_HandlerFunc),
                                     (''/'', gwmux_Handler \<lparr>gwEndpoint = ''127.0.0.1:8080'', gwInsecure = True\<rparr>)],
                        listeners = [Listener ''10.0.0.5:8080''], inShutdown = False\<rparr>"
    and gr: "grpc (snd (Run servingEnv otherHostServer))
      = Some \<lparr>unaryServerChain = serverChain DefaultLogger, orderService = store otherHostServer\<rparr>"
    by (simp_all add: run)
  have "invoke (otherHostNet sampleBehaviour) ''10.0.0.5:8080''
         \<lparr>rpcMethod = ''/v1/orders/1'', rpcPayload = ''{}''\<rparr>
       = grpc_Server_handle sampleBehaviour
           \<lparr>unaryServerChain = serverChain DefaultLogger, orderService = store otherHostServer\<rparr>
           \<lparr>rpcMethod = ''/v1/orders/1'', rpcPayload = ''{}''\<rparr>"
    by (rule invoke_serving [of "otherHostNet sampleBehaviour" "''10.0.0.5:8080''" sampleBehaviour
          "snd (Run servingEnv otherHostServer)", OF n sv gr])
  then have nat: "invoke (otherHostNet sampleBehaviour) ''10.0.0.5:8080''
         \<lparr>rpcMethod = ''/v1/orders/1'', rpcPayload = ''{}''\<rparr> = Reply ''{}''"
    by (simp add: grpc_Server_handle_def serverChain_def sampleBehaviour_def)
  show ?thesis by (simp add: new run gw nat)
qed

end
